theory Spec2Isabelle
  imports Main "HOL-Library.Word"
begin

unbundle bit_operations_syntax

section \<open>The device of \<^verbatim>\<open>chip-atecc608/atecc608.c\<close>\<close>

text \<open>
  The C file keeps one \<^verbatim>\<open>static ATECC608 device\<close>. Every function below takes the
  device and returns the updated one. The fixed-size arrays of the struct are lists; that
  they have the sizes \<^verbatim>\<open>CONFIG_SIZE\<close>, \<^verbatim>\<open>OTP_SIZE\<close>, \<^verbatim>\<open>DATA_SIZE\<close> and
  \<^verbatim>\<open>MAX_PACKET_SIZE\<close> is the predicate \<open>wf_device\<close>.

  \<^verbatim>\<open>calculateCRC\<close>, \<^verbatim>\<open>sendCommand\<close>, \<^verbatim>\<open>simulateSignature\<close> and
  \<^verbatim>\<open>simulateVerification\<close> take no part in the properties below and are left out
  (\<^verbatim>\<open>sendCommand\<close> is the host-side builder of a frame; the bus never calls it).
  \<^verbatim>\<open>chip_init\<close> calls \<^verbatim>\<open>atecc608_init\<close> and registers the two bus primitives with
  the simulator.
\<close>

datatype DeviceState = IDLE | SLEEP | ACTIVE

record ATECC608 =
  state :: DeviceState
  lastError :: "8 word"
  configZone :: "8 word list"
  otpZone :: "8 word list"
  dataZone :: "8 word list"
  commandPacket :: "8 word list"
  responsePacket :: "8 word list"
  packetPos :: "8 word"
  responsePos :: "8 word"
  executionTime :: "32 word"

definition CONFIG_SIZE :: nat where "CONFIG_SIZE = 128"
definition OTP_SIZE :: nat where "OTP_SIZE = 64"
definition DATA_SIZE :: nat where "DATA_SIZE = 1024"
definition MAX_PACKET_SIZE :: nat where "MAX_PACKET_SIZE = 128"

definition wf_device :: "ATECC608 \<Rightarrow> bool" where
  "wf_device d \<longleftrightarrow>
     length (configZone d) = CONFIG_SIZE \<and> length (otpZone d) = OTP_SIZE \<and>
     length (dataZone d) = DATA_SIZE \<and> length (commandPacket d) = MAX_PACKET_SIZE \<and>
     length (responsePacket d) = MAX_PACKET_SIZE"

text \<open>
  \<^verbatim>\<open>memcpy(dest + off, src, n)\<close>: byte \<open>off + k\<close> of the destination becomes byte \<open>k\<close>
  of the source for \<open>k < n\<close>, every other byte of the destination stays. The callers check
  that \<open>off + n\<close> is within the destination before they copy.
\<close>

definition memcpy :: "8 word list \<Rightarrow> nat \<Rightarrow> 8 word list \<Rightarrow> nat \<Rightarrow> 8 word list" where
  "memcpy dest off src n =
     map (\<lambda>i. if off \<le> i \<and> i < off + n then src ! (i - off) else dest ! i) [0..<length dest]"

text \<open>\<^verbatim>\<open>memset(zone, c, n)\<close> over a whole array of \<open>n\<close> bytes.\<close>

definition memset :: "8 word \<Rightarrow> nat \<Rightarrow> 8 word list" where
  "memset c n = replicate n c"

text \<open>
  The static device before \<^verbatim>\<open>chip_init\<close> runs: C zero-initialises static storage, and
  \<^verbatim>\<open>IDLE\<close> is the enumerator 0.
\<close>

definition device0 :: ATECC608 where
  "device0 = \<lparr> state = IDLE, lastError = 0, configZone = replicate 128 0,
     otpZone = replicate 64 0, dataZone = replicate 1024 0,
     commandPacket = replicate 128 0, responsePacket = replicate 128 0,
     packetPos = 0, responsePos = 0, executionTime = 0 \<rparr>"

subsection \<open>The C library's pseudo-random generator\<close>

text \<open>
  \<^verbatim>\<open>rand\<close> and \<^verbatim>\<open>srand\<close> belong to the C library, not to this file: the functions that
  call them take \<open>rand\<close> (one draw from a generator state) and \<open>srand\<close> (the state a seed
  gives) as parameters, and thread the generator state \<open>'s\<close> beside the device.
\<close>

type_synonym 's rand_fn = "'s \<Rightarrow> int \<times> 's"

text \<open>A concrete generator, for evaluating the functions on concrete inputs.\<close>

definition rand0 :: "nat rand_fn" where
  "rand0 s = (int ((s * 75 + 74) mod 65537), (s * 75 + 74) mod 65537)"

definition srand0 :: "int \<Rightarrow> nat" where
  "srand0 seed = nat \<bar>seed\<bar>"

primrec rand_bytes :: "'s rand_fn \<Rightarrow> nat \<Rightarrow> 's \<Rightarrow> 8 word list \<times> 's" where
  "rand_bytes rand 0 s = ([], s)"
| "rand_bytes rand (Suc n) s =
     (let (v, s1) = rand s; (rest, s2) = rand_bytes rand n s1
      in (word_of_int (v AND 0xFF) # rest, s2))"

text \<open>
  \<^verbatim>\<open>generateRandomNumber(random, length)\<close>: the bytes written to \<^verbatim>\<open>random[0..length)\<close>,
  in order, and the generator state after \<open>length\<close> draws.
\<close>

definition generateRandomNumber :: "'s rand_fn \<Rightarrow> 8 word \<Rightarrow> 's \<Rightarrow> 8 word list \<times> 's" where
  "generateRandomNumber rand len s = rand_bytes rand (unat len) s"

subsection \<open>Initialisation\<close>

definition atecc608_init :: "(int \<Rightarrow> 's) \<Rightarrow> int \<Rightarrow> ATECC608 \<times> 's \<Rightarrow> ATECC608 \<times> 's" where
  "atecc608_init srand now w =
     (let d = fst w;
          d = d\<lparr>state := IDLE\<rparr>;
          d = d\<lparr>lastError := 0\<rparr>;
          d = d\<lparr>packetPos := 0\<rparr>;
          d = d\<lparr>responsePos := 0\<rparr>;
          d = d\<lparr>executionTime := 0\<rparr>;
          d = d\<lparr>configZone := memset 0xFF CONFIG_SIZE\<rparr>;
          d = d\<lparr>otpZone := memset 0 OTP_SIZE\<rparr>;
          d = d\<lparr>dataZone := memset 0 DATA_SIZE\<rparr>;
          d = d\<lparr>configZone := (configZone d)[0 := 0x01]\<rparr>;
          d = d\<lparr>configZone := (configZone d)[1 := 0x23]\<rparr>
      in (d, srand now))"

definition atecc608_reset :: "(int \<Rightarrow> 's) \<Rightarrow> int \<Rightarrow> ATECC608 \<times> 's \<Rightarrow> ATECC608 \<times> 's" where
  "atecc608_reset srand now w = atecc608_init srand now w"

subsection \<open>Responses and the dispatcher\<close>

definition simulateExecutionTime :: "32 word \<Rightarrow> ATECC608 \<Rightarrow> ATECC608" where
  "simulateExecutionTime duration d = d\<lparr>executionTime := duration\<rparr>"

definition setResponse :: "8 word list \<Rightarrow> 8 word \<Rightarrow> ATECC608 \<Rightarrow> ATECC608" where
  "setResponse data len d =
     (let d = d\<lparr>responsePacket := memcpy (responsePacket d) 0 data (unat len)\<rparr>
      in d\<lparr>responsePos := 0\<rparr>)"

text \<open>
  \<^verbatim>\<open>processCommand\<close>. In the \<^verbatim>\<open>CMD_RANDOM\<close> case the 32 random bytes go to
  \<^verbatim>\<open>responsePacket + 1\<close>, and \<^verbatim>\<open>setResponse\<close> then copies the first 33 bytes of
  \<^verbatim>\<open>responsePacket\<close> onto themselves. \<^verbatim>\<open>p1\<close> and \<^verbatim>\<open>p2\<close> are read and not used.
\<close>

definition processCommand :: "'s rand_fn \<Rightarrow> ATECC608 \<times> 's \<Rightarrow> ATECC608 \<times> 's" where
  "processCommand rand w =
     (let d = fst w; s = snd w;
          command = commandPacket d ! 2
      in if command = 0x1B then
           (let (bytes, s1) = generateRandomNumber rand 32 s;
                d = d\<lparr>responsePacket := memcpy (responsePacket d) 1 bytes 32\<rparr>;
                d = setResponse (responsePacket d) 33 d
            in (simulateExecutionTime 23 d, s1))
         else if command = 0x16 then (simulateExecutionTime 7 d, s)
         else if command = 0x40 then (simulateExecutionTime 115 d, s)
         else if command = 0x41 then (simulateExecutionTime 60 d, s)
         else if command = 0x45 then (simulateExecutionTime 72 d, s)
         else if command = 0x02 then (simulateExecutionTime 1 d, s)
         else if command = 0x12 then (simulateExecutionTime 26 d, s)
         else if command = 0x17 then (simulateExecutionTime 32 d, s)
         else if command = 0x30 then (simulateExecutionTime 1 d, s)
         else (d\<lparr>lastError := 7\<rparr>, s))"

subsection \<open>The two bus primitives\<close>

text \<open>\<^verbatim>\<open>atecc608_read_byte\<close>: the byte returned and the device after the call.\<close>

definition atecc608_read_byte :: "ATECC608 \<Rightarrow> 8 word \<times> ATECC608" where
  "atecc608_read_byte d =
     (if responsePos d < 128
      then (responsePacket d ! unat (responsePos d), d\<lparr>responsePos := responsePos d + 1\<rparr>)
      else (0, d))"

text \<open>
  \<^verbatim>\<open>atecc608_write_byte\<close>. The C function returns nothing; the first component of the
  result counts the calls of \<^verbatim>\<open>processCommand\<close> made during this call (0 or 1).
\<close>

definition atecc608_write_byte ::
    "'s rand_fn \<Rightarrow> 8 word \<Rightarrow> ATECC608 \<times> 's \<Rightarrow> nat \<times> ATECC608 \<times> 's" where
  "atecc608_write_byte rand byte w =
     (let d = fst w; s = snd w;
          d = (if packetPos d < 128
               then d\<lparr>commandPacket := (commandPacket d)[unat (packetPos d) := byte],
                      packetPos := packetPos d + 1\<rparr>
               else d)
      in if packetPos d = 1 then
           (if byte = 0x03 then (0, d\<lparr>packetPos := 0\<rparr>, s) else (0, d, s))
         else if packetPos d > 1 \<and> commandPacket d ! 0 = 0x03 then
           (if packetPos d = commandPacket d ! 1 then
              (let (d, s) = processCommand rand (d, s)
               in (1, d\<lparr>packetPos := 0\<rparr>, s))
            else (0, d, s))
         else (0, d, s))"

text \<open>
  The bus collaborator delivers a byte sequence by one call of \<^verbatim>\<open>atecc608_write_byte\<close>
  per byte; \<open>deliver_bytes\<close> adds up the dispatches of the calls.
\<close>

fun deliver_bytes :: "'s rand_fn \<Rightarrow> 8 word list \<Rightarrow> ATECC608 \<times> 's \<Rightarrow> nat \<times> ATECC608 \<times> 's" where
  "deliver_bytes rand [] w = (0, w)"
| "deliver_bytes rand (b # bs) w =
     (let (n, w1) = atecc608_write_byte rand b w;
          (m, w2) = deliver_bytes rand bs w1
      in (n + m, w2))"

text \<open>\<open>n\<close> calls of \<^verbatim>\<open>atecc608_read_byte\<close> in a row: the bytes returned, and the device.\<close>

fun take_bytes :: "nat \<Rightarrow> ATECC608 \<Rightarrow> 8 word list \<times> ATECC608" where
  "take_bytes 0 d = ([], d)"
| "take_bytes (Suc n) d =
     (let (b, d1) = atecc608_read_byte d; (bs, d2) = take_bytes n d1 in (b # bs, d2))"

subsection \<open>Zone memory\<close>

text \<open>
  \<^verbatim>\<open>read\<close>: \<open>Some\<close> of the bytes copied to the caller's buffer when the C function returns
  true, \<open>None\<close> when it returns false (the buffer is then not written). \<^verbatim>\<open>address + len\<close>
  is computed in \<^verbatim>\<open>int\<close>, so it does not wrap.
\<close>

definition read :: "8 word \<Rightarrow> 16 word \<Rightarrow> 8 word \<Rightarrow> ATECC608 \<Rightarrow> 8 word list option \<times> ATECC608" where
  "read zone address len d =
     (if len > 32 then (None, d\<lparr>lastError := 1\<rparr>)
      else if zone AND 0x03 = 0x00 then
        (if unat address + unat len > CONFIG_SIZE then (None, d\<lparr>lastError := 3\<rparr>)
         else (Some (take (unat len) (drop (unat address) (configZone d))), d))
      else if zone AND 0x03 = 0x01 then
        (if unat address + unat len > OTP_SIZE then (None, d\<lparr>lastError := 3\<rparr>)
         else (Some (take (unat len) (drop (unat address) (otpZone d))), d))
      else if zone AND 0x03 = 0x02 then
        (if unat address + unat len > DATA_SIZE then (None, d\<lparr>lastError := 3\<rparr>)
         else (Some (take (unat len) (drop (unat address) (dataZone d))), d))
      else (None, d\<lparr>lastError := 2\<rparr>))"

text \<open>\<^verbatim>\<open>write\<close>: the boolean returned and the device after the call.\<close>

definition "write" :: "8 word \<Rightarrow> 16 word \<Rightarrow> 8 word list \<Rightarrow> 8 word \<Rightarrow> ATECC608 \<Rightarrow> bool \<times> ATECC608" where
  "write zone address data len d =
     (if len > 32 then (False, d\<lparr>lastError := 1\<rparr>)
      else if zone AND 0x03 = 0x00 then
        (if unat address + unat len > CONFIG_SIZE then (False, d\<lparr>lastError := 3\<rparr>)
         else (True, d\<lparr>configZone := memcpy (configZone d) (unat address) data (unat len)\<rparr>))
      else if zone AND 0x03 = 0x01 then
        (if unat address + unat len > OTP_SIZE then (False, d\<lparr>lastError := 3\<rparr>)
         else (True, d\<lparr>otpZone := memcpy (otpZone d) (unat address) data (unat len)\<rparr>))
      else if zone AND 0x03 = 0x02 then
        (if unat address + unat len > DATA_SIZE then (False, d\<lparr>lastError := 3\<rparr>)
         else (True, d\<lparr>dataZone := memcpy (dataZone d) (unat address) data (unat len)\<rparr>))
      else (False, d\<lparr>lastError := 2\<rparr>))"





subsection \<open>Key store\<close>

text \<open>
  \<^verbatim>\<open>32 * key_id\<close> is computed in \<^verbatim>\<open>int\<close> (at most 8160) and fits the
  \<^verbatim>\<open>uint16_t\<close> address.
\<close>

definition storeKey :: "8 word \<Rightarrow> 8 word list \<Rightarrow> 8 word \<Rightarrow> ATECC608 \<Rightarrow> bool \<times> ATECC608" where
  "storeKey key_id key key_type d =
     (if key_id \<ge> 16 then (False, d\<lparr>lastError := 8\<rparr>)
      else (let address = word_of_nat (32 * unat key_id) in write 0x02 address key 32 d))"

definition generatePrivateKey ::
    "'s rand_fn \<Rightarrow> 8 word \<Rightarrow> 8 word \<Rightarrow> ATECC608 \<times> 's \<Rightarrow> bool \<times> ATECC608 \<times> 's" where
  "generatePrivateKey rand key_id key_type w =
     (let (private_key, s1) = generateRandomNumber rand 32 (snd w);
          (ok, d) = storeKey key_id private_key key_type (fst w)
      in (ok, d, s1))"

definition computeHMAC :: "8 word \<Rightarrow> 8 word list \<Rightarrow> ATECC608 \<Rightarrow> 8 word list option \<times> ATECC608" where
  "computeHMAC key_id message d =
     (case read 0x02 (word_of_nat (32 * unat key_id)) 32 d of
        (None, d1) \<Rightarrow> (None, d1)
      | (Some key, d1) \<Rightarrow> (Some (map (\<lambda>i. key ! i XOR message ! i) [0..<32]), d1))"

definition deriveKey :: "8 word \<Rightarrow> ATECC608 \<Rightarrow> 8 word list option \<times> ATECC608" where
  "deriveKey parent_key_id d =
     (case read 0x02 (word_of_nat (32 * unat parent_key_id)) 32 d of
        (None, d1) \<Rightarrow> (None, d1)
      | (Some parent_key, d1) \<Rightarrow>
          (Some (map (\<lambda>i. parent_key ! i XOR word_of_nat (i + 1)) [0..<32]), d1))"

subsection \<open>Vocabulary of the properties\<close>

text \<open>
  The size of the zone that the \<^verbatim>\<open>switch (zone & 0x03)\<close> of \<^verbatim>\<open>read\<close> and \<^verbatim>\<open>write\<close>
  selects for a zone tag; \<open>None\<close> for the \<^verbatim>\<open>default\<close> branch.
\<close>

definition zone_max_len :: "8 word \<Rightarrow> nat option" where
  "zone_max_len zone =
     (if zone AND 0x03 = 0x00 then Some CONFIG_SIZE
      else if zone AND 0x03 = 0x01 then Some OTP_SIZE
      else if zone AND 0x03 = 0x02 then Some DATA_SIZE
      else None)"

text \<open>The contents of the three zones.\<close>

definition zones :: "ATECC608 \<Rightarrow> 8 word list \<times> 8 word list \<times> 8 word list" where
  "zones d = (configZone d, otpZone d, dataZone d)"





text \<open>The lengths of the five arrays of a device.\<close>

definition shape :: "ATECC608 \<Rightarrow> nat \<times> nat \<times> nat \<times> nat \<times> nat" where
  "shape d = (length (configZone d), length (otpZone d), length (dataZone d),
              length (commandPacket d), length (responsePacket d))"

text \<open>
  The state the framer is in whenever the bus has only called \<^verbatim>\<open>atecc608_write_byte\<close>
  since initialisation: the cursor is 0, or byte 0 of the command buffer is not the
  marker \<^verbatim>\<open>CMD_COMMAND\<close>.
\<close>

definition framer_inv :: "ATECC608 \<Rightarrow> bool" where
  "framer_inv d \<longleftrightarrow> wf_device d \<and> (packetPos d = 0 \<or> commandPacket d ! 0 \<noteq> 0x03)"

subsection \<open>Concrete inputs\<close>

text \<open>A key, a message, and devices and an operation sequence to evaluate the functions on.\<close>

definition key3 :: "8 word list" where
  "key3 = map word_of_nat [100..<132]"

definition msg0 :: "8 word list" where
  "msg0 = map word_of_nat [7..<39]"

definition device_k :: ATECC608 where
  "device_k = snd (storeKey 3 key3 0x04 device0)"

definition device_r :: ATECC608 where
  "device_r = device0\<lparr>responsePacket := (responsePacket device0)[127 := 0x5A], responsePos := 127\<rparr>"


section \<open>Auxiliary facts\<close>

lemmas sizes = CONFIG_SIZE_def OTP_SIZE_def DATA_SIZE_def MAX_PACKET_SIZE_def

lemma memcpy_length [simp]: "length (memcpy dest off src n) = length dest"
  by (simp add: memcpy_def)

lemma memcpy_nth:
  "i < length dest \<Longrightarrow>
   memcpy dest off src n ! i = (if off \<le> i \<and> i < off + n then src ! (i - off) else dest ! i)"
  by (simp add: memcpy_def)

lemma take_drop_memcpy:
  assumes "off + n \<le> length dest" and "n \<le> length src"
  shows "take n (drop off (memcpy dest off src n)) = take n src"
  using assms by (intro nth_equalityI) (auto simp: memcpy_nth)

lemma wf_device0: "wf_device device0"
  by (simp add: wf_device_def device0_def sizes)

lemma gt32: "(32 :: 8 word) < len \<longleftrightarrow> 32 < unat len"
  by (simp add: word_less_nat_alt)

lemma slot_address: "unat (word_of_nat (32 * unat (k :: 8 word)) :: 16 word) = 32 * unat k"
proof -
  have "unat k < 256" using unsigned_less [of k] by simp
  then show ?thesis by (simp only: unat_of_nat) simp
qed

lemma read_data_Some:
  assumes "read 0x02 address 32 d = (Some key, d1)"
  shows "d1 = d \<and> key = take 32 (drop (unat address) (dataZone d)) \<and>
         unat address + 32 \<le> DATA_SIZE"
  using assms by (auto simp: read_def split: if_splits)

lemma wf_shape: "shape d' = shape d \<Longrightarrow> wf_device d' = wf_device d"
  by (simp add: shape_def wf_device_def)


lemma write_shape: "shape (snd (write zone address data len d)) = shape d"
  by (simp add: write_def shape_def)


lemma write_data_config: "configZone (snd (write 0x02 address data len d)) = configZone d"
  by (simp add: write_def)

lemma storeKey_keeps:
  "shape (snd (storeKey key_id key key_type d)) = shape d"
  "configZone (snd (storeKey key_id key key_type d)) = configZone d"
  by (simp_all add: storeKey_def write_shape write_data_config) (simp add: shape_def)












text \<open>
  A call of \<^verbatim>\<open>atecc608_write_byte\<close> in a state of \<open>framer_inv\<close> does not dispatch and
  ends in such a state: a byte stored at cursor 0 that is the marker sends the cursor back
  to 0, and any other byte replaces the marker.
\<close>

lemma write_byte_no_dispatch:
  assumes "framer_inv d"
  shows "fst (atecc608_write_byte rand b (d, s)) = 0 \<and>
         framer_inv (fst (snd (atecc608_write_byte rand b (d, s))))"
proof (cases "packetPos d = 0")
  case True
  with assms show ?thesis
    by (auto simp: atecc608_write_byte_def framer_inv_def wf_device_def sizes Let_def)
next
  case False
  with assms have c: "commandPacket d ! 0 \<noteq> 0x03" and wf: "wf_device d"
    by (simp_all add: framer_inv_def)
  from False have u: "unat (packetPos d) \<noteq> 0" by (simp add: unat_eq_0)
  have n1: "packetPos d + 1 \<noteq> 1" using False by simp
  show ?thesis
    using c wf u n1
    by (auto simp: atecc608_write_byte_def framer_inv_def wf_device_def sizes Let_def)
qed

lemma never_dispatch:
  assumes "framer_inv d"
  shows "fst (deliver_bytes rand bs (d, s)) = 0"
  using assms
proof (induction bs arbitrary: d s)
  case Nil
  then show ?case by simp
next
  case (Cons b bs)
  obtain n d1 s1 where w: "atecc608_write_byte rand b (d, s) = (n, d1, s1)"
    by (cases "atecc608_write_byte rand b (d, s)") auto
  with write_byte_no_dispatch [OF Cons.prems, of rand b s]
  have "n = 0" and "framer_inv d1" by simp_all
  with Cons.IH [of d1 s1] w show ?case
    by (simp split: prod.splits)
qed

text \<open>
  From a freshly initialised device, no byte sequence delivered through
  \<^verbatim>\<open>atecc608_write_byte\<close> ever reaches \<^verbatim>\<open>processCommand\<close>.
\<close>

lemma never_dispatch_after_init:
  assumes "wf_device (fst w)"
  shows "fst (deliver_bytes rand bs (atecc608_init srand now w)) = 0"
proof -
  have "framer_inv (fst (atecc608_init srand now w))"
    using assms by (simp add: framer_inv_def wf_device_def atecc608_init_def memset_def sizes)
  from never_dispatch [OF this, of rand bs "snd (atecc608_init srand now w)"]
  show ?thesis by simp
qed

lemma device_k_wf: "wf_device device_k"
  using wf_shape [OF storeKey_keeps(1) [of 3 key3 "0x04" device0]] wf_device0
  by (simp add: device_k_def)

lemma key3_length: "length key3 = 32"
  by (simp add: key3_def)

lemma device_k_slot3:
  "read 0x02 (word_of_nat (32 * unat (3 :: 8 word))) 32 device_k = (Some key3, device_k)"
proof -
  have d: "device_k = device0\<lparr>dataZone := memcpy (dataZone device0) 96 key3 32\<rparr>"
    by (simp add: device_k_def storeKey_def write_def sizes)
  have "take 32 (drop 96 (memcpy (dataZone device0) 96 key3 32)) = take 32 key3"
    by (rule take_drop_memcpy) (simp_all add: device0_def key3_length)
  then show ?thesis
    unfolding d by (simp add: read_def sizes key3_length)
qed

lemma storeKey_invalid_slot:
  assumes "16 \<le> unat key_id"
  shows "storeKey key_id key key_type d = (False, d\<lparr>lastError := 8\<rparr>)"
    and "fst (generatePrivateKey rand key_id key_type (d, s)) = False"
    and "fst (snd (generatePrivateKey rand key_id key_type (d, s))) = d\<lparr>lastError := 8\<rparr>"
proof -
  from assms have "16 \<le> key_id" by (simp add: word_le_nat_alt)
  then show s: "storeKey key_id key key_type d = (False, d\<lparr>lastError := 8\<rparr>)"
    by (simp add: storeKey_def)
  show "fst (generatePrivateKey rand key_id key_type (d, s)) = False"
    and "fst (snd (generatePrivateKey rand key_id key_type (d, s))) = d\<lparr>lastError := 8\<rparr>"
    using \<open>16 \<le> key_id\<close>
    by (simp_all add: generatePrivateKey_def storeKey_def split: prod.splits)
qed

section \<open>Zone memory\<close>

text \<open>
  C2, as the code has it. The zone is selected by the two low bits of the tag
  (\<^verbatim>\<open>zone & 0x03\<close>), and the length is checked before the zone. So the tags that fail as
  invalid are those whose two low bits are both set, and only for a length of at most 32:
  \<^verbatim>\<open>read\<close> and \<^verbatim>\<open>write\<close> then return failure, set \<^verbatim>\<open>lastError\<close> to 2 and change
  nothing else of the device.
\<close>

theorem invalid_zone:
  assumes "zone AND 0x03 = 0x03" and "unat len \<le> 32"
  shows "read zone address len d = (None, d\<lparr>lastError := 2\<rparr>) \<and>
         write zone address data len d = (False, d\<lparr>lastError := 2\<rparr>)"
  using assms by (simp add: read_def write_def gt32)

theorem invalid_zone_witness:
  "(7 :: 8 word) AND 0x03 = 0x03 \<and> unat (4 :: 8 word) \<le> 32 \<and>
   read 7 5 4 device0 = (None, device0\<lparr>lastError := 2\<rparr>) \<and>
   write 7 5 [1, 2, 3, 4] 4 device0 = (False, device0\<lparr>lastError := 2\<rparr>)"
  using invalid_zone [where zone = 7 and len = 4 and address = 5 and d = device0
      and data = "[1, 2, 3, 4]"]
  by simp

text \<open>
  C2 as stated fails: the tag 4 is not one of 0, 1, 2, yet \<^verbatim>\<open>write\<close> with tag 4 succeeds
  and overwrites byte 0 of the config zone, and \<^verbatim>\<open>read\<close> with tag 4 returns that zone's
  bytes.
\<close>

theorem invalid_zone_counterexample:
  "fst (write 4 0 [0xAA] 1 (fst (atecc608_init srand0 0 (device0, 0)))) = True \<and>
   configZone (snd (write 4 0 [0xAA] 1 (fst (atecc608_init srand0 0 (device0, 0))))) ! 0 = 0xAA \<and>
   configZone (fst (atecc608_init srand0 0 (device0, 0))) ! 0 = 0x01 \<and>
   fst (read 4 0 1 (fst (atecc608_init srand0 0 (device0, 0)))) = Some [0x01]"
  by code_simp

text \<open>
  C4, as the code has it. A length above 32 fails with \<^verbatim>\<open>lastError\<close> 1, whatever the zone
  and the address. A length of at most 32 whose range \<open>address + len\<close> exceeds the size of
  the selected zone (128 config, 64 OTP, 1024 data) fails with \<^verbatim>\<open>lastError\<close> 3. Every
  failing \<^verbatim>\<open>read\<close> or \<^verbatim>\<open>write\<close> leaves the three zones as they were.
\<close>

theorem zone_access_failures:
  "(32 < unat len \<longrightarrow>
      read zone address len d = (None, d\<lparr>lastError := 1\<rparr>) \<and>
      write zone address data len d = (False, d\<lparr>lastError := 1\<rparr>)) \<and>
   (unat len \<le> 32 \<and> zone_max_len zone = Some m \<and> m < unat address + unat len \<longrightarrow>
      read zone address len d = (None, d\<lparr>lastError := 3\<rparr>) \<and>
      write zone address data len d = (False, d\<lparr>lastError := 3\<rparr>)) \<and>
   (fst (read zone address len d) = None \<longrightarrow> zones (snd (read zone address len d)) = zones d) \<and>
   (\<not> fst (write zone address data len d) \<longrightarrow>
      zones (snd (write zone address data len d)) = zones d)"
  by (simp add: read_def write_def gt32 zone_max_len_def zones_def)

theorem zone_access_failures_witness:
  "32 < unat (40 :: 8 word) \<and> unat (8 :: 8 word) \<le> 32 \<and> zone_max_len 1 = Some 64 \<and>
   64 < unat (60 :: 16 word) + unat (8 :: 8 word) \<and>
   read 0 0 40 device0 = (None, device0\<lparr>lastError := 1\<rparr>) \<and>
   write 0 0 [] 40 device0 = (False, device0\<lparr>lastError := 1\<rparr>) \<and>
   read 1 60 8 device0 = (None, device0\<lparr>lastError := 3\<rparr>) \<and>
   write 1 60 [] 8 device0 = (False, device0\<lparr>lastError := 3\<rparr>) \<and>
   zones (snd (read 1 60 8 device0)) = zones device0 \<and>
   zones (snd (write 1 60 [] 8 device0)) = zones device0"
  using zone_access_failures [where len = 40 and zone = 0 and address = 0 and d = device0
        and data = "[]" and m = 0]
    zone_access_failures [where len = 8 and zone = 1 and address = 60 and d = device0
        and data = "[]" and m = 64]
  by (simp add: zone_max_len_def zones_def sizes)

text \<open>
  C4 as stated fails where both of its conditions hold: on the config zone, address 120
  and length 40 give \<open>address + length = 160 > 128\<close>, and the calls fail with
  \<^verbatim>\<open>lastError\<close> 1, not 3.
\<close>

theorem zone_access_counterexample:
  "unat (120 :: 16 word) + unat (40 :: 8 word) > CONFIG_SIZE \<and>
   fst (read 0 120 40 device0) = None \<and>
   lastError (snd (read 0 120 40 device0)) = 1 \<and>
   \<not> fst (write 0 120 [] 40 device0) \<and>
   lastError (snd (write 0 120 [] 40 device0)) = 1"
  by (simp add: read_def write_def sizes)

text \<open>
  C5. For a zone tag 0, 1 or 2, a length of at most 32 and a range within the zone's size,
  \<^verbatim>\<open>write\<close> of \<open>len\<close> bytes succeeds (and leaves \<^verbatim>\<open>lastError\<close> alone), and \<^verbatim>\<open>read\<close>
  over the same range then succeeds and returns exactly the bytes written.
\<close>

theorem write_read_roundtrip:
  assumes "wf_device d" and "zone = 0 \<or> zone = 1 \<or> zone = 2"
    and "unat len \<le> 32" and "zone_max_len zone = Some m"
    and "unat address + unat len \<le> m" and "unat len \<le> length data"
  shows "fst (write zone address data len d) \<and>
         lastError (snd (write zone address data len d)) = lastError d \<and>
         read zone address len (snd (write zone address data len d)) =
           (Some (take (unat len) data), snd (write zone address data len d))"
  using assms
  by (auto simp: read_def write_def gt32 zone_max_len_def wf_device_def take_drop_memcpy)

theorem write_read_roundtrip_witness:
  "wf_device device0 \<and> unat (3 :: 8 word) \<le> 32 \<and> zone_max_len 1 = Some 64 \<and>
   unat (61 :: 16 word) + unat (3 :: 8 word) \<le> 64 \<and>
   fst (write 1 61 [7, 8, 9] 3 device0) \<and>
   read 1 61 3 (snd (write 1 61 [7, 8, 9] 3 device0)) =
     (Some [7, 8, 9], snd (write 1 61 [7, 8, 9] 3 device0))"
  using write_read_roundtrip [where d = device0 and zone = 1 and len = 3 and m = 64
        and address = 61 and data = "[7, 8, 9]"] wf_device0
  by (simp add: zone_max_len_def sizes)

section \<open>Initialisation\<close>

text \<open>
  C9, as the code has it. After \<^verbatim>\<open>atecc608_init\<close> (and \<^verbatim>\<open>atecc608_reset\<close>, which
  only calls it) the config zone holds 0x01 at byte 0, 0x23 at byte 1 and 0xFF at bytes
  2 to 127; the OTP zone is 64 zero bytes and the data zone 1024 zero bytes;
  \<^verbatim>\<open>lastError\<close> is 0, the state is \<^verbatim>\<open>IDLE\<close> and both packet cursors are 0.
\<close>

theorem init_defaults:
  "configZone (fst (atecc608_init srand now w)) = 0x01 # 0x23 # replicate 126 0xFF \<and>
   otpZone (fst (atecc608_init srand now w)) = replicate 64 0 \<and>
   dataZone (fst (atecc608_init srand now w)) = replicate 1024 0 \<and>
   lastError (fst (atecc608_init srand now w)) = 0 \<and>
   state (fst (atecc608_init srand now w)) = IDLE \<and>
   packetPos (fst (atecc608_init srand now w)) = 0 \<and>
   responsePos (fst (atecc608_init srand now w)) = 0 \<and>
   atecc608_reset srand now w = atecc608_init srand now w"
proof -
  have "(replicate 128 (0xFF :: 8 word))[0 := 0x01, 1 := 0x23] = 0x01 # 0x23 # replicate 126 0xFF"
    by code_simp
  then show ?thesis
    by (simp add: atecc608_init_def atecc608_reset_def memset_def sizes)
qed

text \<open>
  C9 as stated fails: after initialisation byte 0 of the config zone is 0x01 and byte 1 is
  0x23, not 0xFF.
\<close>

theorem init_config_counterexample:
  "configZone (fst (atecc608_init srand0 0 (device0, 0))) ! 0 = 0x01 \<and>
   configZone (fst (atecc608_init srand0 0 (device0, 0))) ! 1 = 0x23 \<and>
   configZone (fst (atecc608_reset srand0 0 (device0, 0))) ! 0 \<noteq> 0xFF"
  by (simp add: atecc608_init_def atecc608_reset_def memset_def sizes)

section \<open>Lock flags\<close>




section \<open>Key store\<close>

text \<open>
  C6 at slot 16. \<^verbatim>\<open>storeKey\<close> rejects slot 16 with \<^verbatim>\<open>lastError\<close> 8, but
  \<^verbatim>\<open>computeHMAC\<close> and \<^verbatim>\<open>deriveKey\<close> have no slot check: on slot 16 they read bytes
  512 to 543 of the data zone, succeed and leave \<^verbatim>\<open>lastError\<close> at 0. A slot from 32 on
  is rejected by \<^verbatim>\<open>read\<close>, with \<^verbatim>\<open>lastError\<close> 3.
\<close>

theorem slot16_accepted:
  "fst (computeHMAC 16 (replicate 32 0x5A) (fst (atecc608_init srand0 0 (device0, 0)))) =
     Some (replicate 32 0x5A) \<and>
   lastError (snd (computeHMAC 16 (replicate 32 0x5A) (fst (atecc608_init srand0 0 (device0, 0))))) = 0 \<and>
   fst (deriveKey 16 (fst (atecc608_init srand0 0 (device0, 0)))) = Some (map word_of_nat [1..<33]) \<and>
   lastError (snd (deriveKey 16 (fst (atecc608_init srand0 0 (device0, 0))))) = 0 \<and>
   lastError (snd (storeKey 16 (replicate 32 0x5A) 0x04 (fst (atecc608_init srand0 0 (device0, 0))))) = 8 \<and>
   lastError (snd (computeHMAC 32 (replicate 32 0x5A) (fst (atecc608_init srand0 0 (device0, 0))))) = 3"
  by code_simp

text \<open>
  C7. When the 32-byte key of the parent slot is readable, \<^verbatim>\<open>deriveKey\<close> succeeds,
  leaves the device as it was and returns 32 bytes, byte \<open>i\<close> being byte \<open>i\<close> of the
  parent key (byte \<open>32 * parent + i\<close> of the data zone) XOR \<open>i + 1\<close>; a second call
  returns the same bytes.
\<close>

theorem deriveKey_correct:
  assumes "wf_device d"
    and "read 0x02 (word_of_nat (32 * unat parent)) 32 d = (Some key, d1)"
  shows "\<exists>child. deriveKey parent d = (Some child, d) \<and> length child = 32 \<and>
           (\<forall>i<32. child ! i = key ! i XOR word_of_nat (i + 1)) \<and>
           (\<forall>i<32. key ! i = dataZone d ! (32 * unat parent + i)) \<and>
           deriveKey parent (snd (deriveKey parent d)) = (Some child, d)"
proof -
  from read_data_Some [OF assms(2)]
  have d1: "d1 = d" and key: "key = take 32 (drop (32 * unat parent) (dataZone d))"
    and bound: "32 * unat parent + 32 \<le> DATA_SIZE"
    by (simp_all only: slot_address)
  let ?child = "map (\<lambda>i. key ! i XOR word_of_nat (i + 1)) [0..<32]"
  have eq: "deriveKey parent d = (Some ?child, d)"
    using assms(2) d1 by (simp add: deriveKey_def)
  have k: "\<forall>i<32. key ! i = dataZone d ! (32 * unat parent + i)"
    using assms(1) bound by (simp add: key wf_device_def)
  have c: "\<forall>i<32. ?child ! i = key ! i XOR word_of_nat (i + 1)"
    by simp
  show ?thesis using eq k c by simp
qed

theorem deriveKey_correct_witness:
  "wf_device device_k \<and>
   read 0x02 (word_of_nat (32 * unat (3 :: 8 word))) 32 device_k = (Some key3, device_k) \<and>
   (\<exists>child. deriveKey 3 device_k = (Some child, device_k) \<and> length child = 32 \<and>
      (\<forall>i<32. child ! i = key3 ! i XOR word_of_nat (i + 1)) \<and>
      (\<forall>i<32. key3 ! i = dataZone device_k ! (32 * unat (3 :: 8 word) + i)) \<and>
      deriveKey 3 (snd (deriveKey 3 device_k)) = (Some child, device_k))"
proof -
  note h1 = device_k_wf and h2 = device_k_slot3
  from deriveKey_correct [OF h1 h2] h1 h2 show ?thesis by blast
qed

text \<open>
  C8. When the 32-byte key of the slot is readable and the message has 32 bytes,
  \<^verbatim>\<open>computeHMAC\<close> returns the byte-wise XOR of key and message and leaves the device as
  it was; applied to its own output it returns the message.
\<close>

theorem computeHMAC_xor:
  assumes "wf_device d" and "length message = 32"
    and "read 0x02 (word_of_nat (32 * unat key_id)) 32 d = (Some key, d1)"
  shows "computeHMAC key_id message d = (Some (map2 (XOR) key message), d) \<and>
         computeHMAC key_id (map2 (XOR) key message) d = (Some message, d) \<and>
         key = take 32 (drop (32 * unat key_id) (dataZone d))"
proof -
  from read_data_Some [OF assms(3)]
  have d1: "d1 = d" and key: "key = take 32 (drop (32 * unat key_id) (dataZone d))"
    and bound: "32 * unat key_id + 32 \<le> DATA_SIZE"
    by (simp_all only: slot_address)
  have len: "length key = 32"
    using assms(1) bound by (simp add: key wf_device_def)
  have idx: "map (\<lambda>i. key ! i XOR m ! i) [0..<32] = map2 (XOR) key m" if "length m = 32" for m
    using that len by (intro nth_equalityI) simp_all
  have inv: "map2 (XOR) key (map2 (XOR) key message) = message"
    using len assms(2) by (intro nth_equalityI) (simp_all add: xor.left_commute)
  have l2: "length (map2 (XOR) key message) = 32"
    using len assms(2) by simp
  have "computeHMAC key_id m d = (Some (map2 (XOR) key m), d)" if "length m = 32" for m
    using assms(3) d1 idx [OF that] by (simp add: computeHMAC_def)
  from this [OF assms(2)] this [OF l2] inv key show ?thesis by simp
qed

theorem computeHMAC_xor_witness:
  "wf_device device_k \<and> length msg0 = 32 \<and>
   read 0x02 (word_of_nat (32 * unat (3 :: 8 word))) 32 device_k = (Some key3, device_k) \<and>
   computeHMAC 3 msg0 device_k = (Some (map2 (XOR) key3 msg0), device_k) \<and>
   computeHMAC 3 (map2 (XOR) key3 msg0) device_k = (Some msg0, device_k)"
proof -
  note h1 = device_k_wf and h3 = device_k_slot3
  have h2: "length msg0 = 32" by (simp add: msg0_def)
  from computeHMAC_xor [OF h1 h2 h3] h1 h2 h3 show ?thesis by blast
qed

section \<open>Packet framer\<close>

text \<open>
  C1 at the frame of the specification. Delivered to a freshly initialised device, the
  bytes 0x03, 0x03, 0x1B (\<^verbatim>\<open>CMD_RANDOM\<close>), 0x00, 0x00, 0x00 cause no call of
  \<^verbatim>\<open>processCommand\<close>: the second 0x03 arrives at cursor 0 and is taken as a Word Address
  again, so byte 0 of the buffer becomes 0x1B and the test
  \<^verbatim>\<open>commandPacket[0] == CMD_COMMAND\<close> fails. The cursor ends at 4, not 0, and
  \<^verbatim>\<open>executionTime\<close> stays 0.
\<close>

theorem frame_not_dispatched:
  "fst (deliver_bytes rand0 [0x03, 0x03, 0x1B, 0x00, 0x00, 0x00]
         (atecc608_init srand0 0 (device0, 0))) = 0 \<and>
   packetPos (fst (snd (deliver_bytes rand0 [0x03, 0x03, 0x1B, 0x00, 0x00, 0x00]
         (atecc608_init srand0 0 (device0, 0))))) = 4 \<and>
   executionTime (fst (snd (deliver_bytes rand0 [0x03, 0x03, 0x1B, 0x00, 0x00, 0x00]
         (atecc608_init srand0 0 (device0, 0))))) = 0"
  by code_simp

text \<open>
  C10. While the response cursor is below 128, \<^verbatim>\<open>atecc608_read_byte\<close> returns the byte
  of \<^verbatim>\<open>responsePacket\<close> at the cursor and advances the cursor by one, without wrapping.
  From a cursor of 128 on, any number of calls return 0 each and leave the device, and so
  the cursor, as it was.
\<close>

theorem read_byte_cursor:
  "(unat (responsePos d) < 128 \<longrightarrow>
      atecc608_read_byte d =
        (responsePacket d ! unat (responsePos d), d\<lparr>responsePos := responsePos d + 1\<rparr>) \<and>
      unat (responsePos (snd (atecc608_read_byte d))) = unat (responsePos d) + 1) \<and>
   (128 \<le> unat (responsePos d) \<longrightarrow> take_bytes n d = (replicate n 0, d))"
proof (intro conjI impI)
  assume lt: "unat (responsePos d) < 128"
  then have w: "responsePos d < 128" by (simp add: word_less_nat_alt)
  then show "atecc608_read_byte d =
      (responsePacket d ! unat (responsePos d), d\<lparr>responsePos := responsePos d + 1\<rparr>)"
    by (simp add: atecc608_read_byte_def)
  have "unat (responsePos d + 1) = unat (responsePos d) + 1"
    using lt by (simp add: unat_word_ariths)
  with w show "unat (responsePos (snd (atecc608_read_byte d))) = unat (responsePos d) + 1"
    by (simp add: atecc608_read_byte_def)
next
  assume "128 \<le> unat (responsePos d)"
  then have ge: "\<not> responsePos d < 128" by (simp add: word_less_nat_alt)
  show "take_bytes n d = (replicate n 0, d)"
    by (induction n) (simp_all add: atecc608_read_byte_def ge)
qed

theorem read_byte_cursor_witness:
  "atecc608_read_byte device_r = (0x5A, device_r\<lparr>responsePos := 128\<rparr>) \<and>
   unat (responsePos (snd (atecc608_read_byte device_r))) = 128 \<and>
   take_bytes 3 (device_r\<lparr>responsePos := 128\<rparr>) = ([0, 0, 0], device_r\<lparr>responsePos := 128\<rparr>)"
  using read_byte_cursor [where d = device_r and n = 0]
    read_byte_cursor [where d = "device_r\<lparr>responsePos := 128\<rparr>" and n = 3]
  by (simp add: device_r_def device0_def numeral_3_eq_3)

end
